theory Spec2Isabelle
  imports Complex_Main
begin

section \<open>models.py: the declaration of the books table\<close>

text \<open>
  The column types that models.py uses. \<^verbatim>\<open>Date\<close> is imported there but no column has it.
\<close>

datatype col_type = Integer | String

text \<open>
  What a \<^verbatim>\<open>Column(...)\<close> declaration fixes: the type, whether the column is part of the
  primary key, whether it accepts NULL, and the value the mapping layer fills in on INSERT
  when the object carries none.
\<close>

record column =
  col_type :: col_type
  primary_key :: bool
  nullable :: bool
  default_value :: "string option"

text \<open>
  \<^verbatim>\<open>Column(type, primary_key=False, nullable=<unset>, default=None)\<close>. A \<^verbatim>\<open>nullable\<close>
  that is not given is read as "not primary_key", the rule of the mapping library.
\<close>

definition Column :: "col_type \<Rightarrow> bool \<Rightarrow> bool option \<Rightarrow> string option \<Rightarrow> column" where
  "Column ty pk nl dflt =
     \<lparr>col_type = ty, primary_key = pk,
      nullable = (case nl of None \<Rightarrow> \<not> pk | Some b \<Rightarrow> b),
      default_value = dflt\<rparr>"



definition Book_title :: column where
  "Book_title = Column String False (Some False) None"

definition Book_author :: column where
  "Book_author = Column String False (Some False) None"

definition Book_isbn :: column where
  "Book_isbn = Column String False None None"

definition Book_category :: column where
  "Book_category = Column String False None None"


definition Book_status :: column where
  "Book_status = Column String False None (Some ''available'')"




text \<open>
  An instance of class Book. Every attribute may be \<^verbatim>\<open>None\<close>: the constructor sets only
  the attributes it is given, and \<^verbatim>\<open>id\<close> and \<^verbatim>\<open>status\<close> are filled in when the row is
  written. The attribute \<^verbatim>\<open>id\<close> is \<open>id'\<close> here.
\<close>

record Book =
  id' :: "int option"
  title :: "string option"
  author :: "string option"
  isbn :: "string option"
  category :: "string option"
  publication_year :: "int option"
  status :: "string option"

text \<open>
  \<^verbatim>\<open>Book(title=..., author=..., isbn=..., category=..., publication_year=...)\<close>, the only
  constructor call of the program.
\<close>

definition Book_init ::
  "string option \<Rightarrow> string option \<Rightarrow> string option \<Rightarrow> string option \<Rightarrow> int option \<Rightarrow> Book" where
  "Book_init title' author' isbn' category' publication_year' =
     \<lparr>id' = None, title = title', author = author', isbn = isbn', category = category',
      publication_year = publication_year', status = None\<rparr>"

section \<open>The storage layer\<close>

text \<open>
  The one error kind the service catches. The text is what \<^verbatim>\<open>str(e)\<close> gives.
\<close>

datatype SQLAlchemyError = IntegrityError string | OperationalError string

fun str :: "SQLAlchemyError \<Rightarrow> string" where
  "str (IntegrityError m) = m"
| "str (OperationalError m) = m"

text \<open>
  A statement sent to the database may fail for reasons outside the program (the file is
  locked, the disk is full). Each operation of the service takes, for each statement it
  sends, the error that statement meets, or \<open>None\<close> when the database executes it.
\<close>

type_synonym fault = "SQLAlchemyError option"

text \<open>
  The id the database gives a row inserted without one: 1 in an empty table, otherwise one
  more than the largest id in use.
\<close>

definition next_rowid :: "Book list \<Rightarrow> int" where
  "next_rowid rows =
     (case List.map_filter id' rows of [] \<Rightarrow> 1 | i # js \<Rightarrow> fold max js i + 1)"

text \<open>
  \<^verbatim>\<open>session.add(new_book); session.commit()\<close>: one INSERT in one transaction. The object
  of \<open>add_book\<close> carries no id, so the statement leaves that column to the database. The
  default of \<open>status\<close> is filled in when the object has none, then the NOT NULL columns are
  checked. On an error nothing is written. The table is the list of its rows in the order
  in which a SELECT without ORDER BY returns them; a new row has the largest id and comes
  last.
\<close>

definition commit_insert :: "fault \<Rightarrow> Book \<Rightarrow> Book list \<Rightarrow> SQLAlchemyError + Book list" where
  "commit_insert f book rows =
     (case f of
        Some e \<Rightarrow> Inl e
      | None \<Rightarrow>
          if \<not> nullable Book_title \<and> title book = None then
            Inl (IntegrityError ''NOT NULL constraint failed: books.title'')
          else if \<not> nullable Book_author \<and> author book = None then
            Inl (IntegrityError ''NOT NULL constraint failed: books.author'')
          else
            Inr (rows @
              [book\<lparr>id' := Some (next_rowid rows),
                    status := (case status book of
                                 None \<Rightarrow> default_value Book_status
                               | Some v \<Rightarrow> Some v)\<rparr>]))"

text \<open>\<^verbatim>\<open>session.query(Book).all()\<close>: one SELECT of every row.\<close>

definition query_all :: "fault \<Rightarrow> Book list \<Rightarrow> SQLAlchemyError + Book list" where
  "query_all f rows = (case f of Some e \<Rightarrow> Inl e | None \<Rightarrow> Inr rows)"

text \<open>\<^verbatim>\<open>session.query(Book).get(book_id)\<close>: the row with that primary key, or \<^verbatim>\<open>None\<close>.\<close>

definition query_get :: "fault \<Rightarrow> int \<Rightarrow> Book list \<Rightarrow> SQLAlchemyError + Book option" where
  "query_get f book_id rows =
     (case f of Some e \<Rightarrow> Inl e | None \<Rightarrow> Inr (find (\<lambda>b. id' b = Some book_id) rows))"

text \<open>
  \<^verbatim>\<open>session.delete(book); session.commit()\<close>: one DELETE by primary key in one
  transaction; on an error nothing is deleted.
\<close>

definition commit_delete :: "fault \<Rightarrow> Book \<Rightarrow> Book list \<Rightarrow> SQLAlchemyError + Book list" where
  "commit_delete f book rows =
     (case f of Some e \<Rightarrow> Inl e | None \<Rightarrow> Inr (filter (\<lambda>b. id' b \<noteq> id' book) rows))"

section \<open>app.py: the service\<close>

text \<open>
  The state the program works on: the rows of the books table in library.db, the texts
  passed to \<^verbatim>\<open>st.error\<close> so far (oldest first), and the entry that the \<^verbatim>\<open>st.cache_data\<close>
  decorator keeps for \<open>get_all_books\<close>: the time it was stored and the value.
\<close>

record app =
  table :: "Book list"
  shown :: "string list"
  cache :: "(real \<times> Book list) option"

definition st_error :: "string \<Rightarrow> app \<Rightarrow> app" where
  "st_error msg s = s\<lparr>shown := shown s @ [msg]\<rparr>"

definition add_book ::
  "fault \<Rightarrow> string option \<Rightarrow> string option \<Rightarrow> string option \<Rightarrow> string option \<Rightarrow> int option
     \<Rightarrow> app \<Rightarrow> bool \<times> app" where
  "add_book f title' author' isbn' category' publication_year' s =
     (let new_book = Book_init title' author' isbn' category' publication_year' in
      case commit_insert f new_book (table s) of
        Inr rows \<Rightarrow> (True, s\<lparr>table := rows\<rparr>)
      | Inl e \<Rightarrow> (False, st_error (''Error adding book: '' @ str e) s))"

text \<open>The defaults of the signature: \<^verbatim>\<open>isbn=""\<close>, \<^verbatim>\<open>category=""\<close>, \<^verbatim>\<open>publication_year=None\<close>.\<close>

definition isbn_default :: "string option" where
  "isbn_default = Some ''''"

definition category_default :: "string option" where
  "category_default = Some ''''"

definition publication_year_default :: "int option" where
  "publication_year_default = None"

text \<open>
  The function under the decorator. A data frame is the list of its rows, each row the
  dictionary that the comprehension builds; the empty frame is the empty list.
\<close>

definition get_all_books_body :: "fault \<Rightarrow> app \<Rightarrow> Book list \<times> app" where
  "get_all_books_body f s =
     (case query_all f (table s) of
        Inr books \<Rightarrow>
          (let books_data =
                 map (\<lambda>book. \<lparr>id' = id' book, title = title book, author = author book,
                               isbn = isbn book, category = category book,
                               publication_year = publication_year book,
                               status = status book\<rparr>) books
           in (if books_data \<noteq> [] then books_data else [], s))
      | Inl e \<Rightarrow> ([], st_error (''Error retrieving books: '' @ str e) s))"

text \<open>
  \<^verbatim>\<open>@st.cache_data(ttl=60)\<close> on a function without arguments: one entry. A call at time
  \<open>now\<close> returns the stored value while the entry is younger than the ttl and does not run
  the function; otherwise it runs the function and stores what it returned, whatever it is.
  \<^verbatim>\<open>get_all_books.clear()\<close> drops the entry.
\<close>

definition ttl :: real where
  "ttl = 60"

definition get_all_books :: "real \<Rightarrow> fault \<Rightarrow> app \<Rightarrow> Book list \<times> app" where
  "get_all_books now f s =
     (let miss = (case get_all_books_body f s of
                    (df, s') \<Rightarrow> (df, s'\<lparr>cache := Some (now, df)\<rparr>)) in
      case cache s of
        None \<Rightarrow> miss
      | Some (stored, df) \<Rightarrow> if now < stored + ttl then (df, s) else miss)"

definition get_all_books_clear :: "app \<Rightarrow> app" where
  "get_all_books_clear s = s\<lparr>cache := None\<rparr>"

text \<open>
  \<open>delete_book\<close> sends two statements: the lookup, and the DELETE when the lookup found
  a row.
\<close>

definition delete_book :: "fault \<Rightarrow> fault \<Rightarrow> int \<Rightarrow> app \<Rightarrow> bool \<times> app" where
  "delete_book f_get f_commit book_id s =
     (case query_get f_get book_id (table s) of
        Inl e \<Rightarrow> (False, st_error (''Error deleting book: '' @ str e) s)
      | Inr None \<Rightarrow> (False, s)
      | Inr (Some book) \<Rightarrow>
          (case commit_delete f_commit book (table s) of
             Inr rows \<Rightarrow> (True, s\<lparr>table := rows\<rparr>)
           | Inl e \<Rightarrow> (False, st_error (''Error deleting book: '' @ str e) s)))"

section \<open>app.py: the page script\<close>

text \<open>
  \<^verbatim>\<open>str.isspace\<close> and \<^verbatim>\<open>str.strip()\<close> without arguments. A string is the list of its
  characters and a character is a code point below 256, the characters this type has; the
  whitespace among them is listed.
\<close>

definition isspace :: "char \<Rightarrow> bool" where
  "isspace c =
     (c \<in> set [CHR 0x09, CHR 0x0A, CHR 0x0B, CHR 0x0C, CHR 0x0D,
                CHR 0x1C, CHR 0x1D, CHR 0x1E, CHR 0x1F, CHR 0x20, CHR 0x85, CHR 0xA0])"

definition strip :: "string \<Rightarrow> string" where
  "strip x = rev (dropWhile isspace (rev (dropWhile isspace x)))"

text \<open>
  One run of the script is one interaction: the menu entry chosen in the sidebar, the
  values of the widgets of that page, and whether the form's button was pressed.
\<close>

datatype page =
    View_Books
  | Add_Book string string string string int bool
  | Delete_Book int bool

text \<open>
  \<open>main\<close>, as far as it touches the state: the calls into the service, the clearing of
  the cache and the calls of \<^verbatim>\<open>st.error\<close>. The other widgets only draw. The delete form is
  drawn, and so can only be submitted, when the frame read at the top of the page has rows.
\<close>

definition main :: "real \<Rightarrow> fault \<Rightarrow> fault \<Rightarrow> fault \<Rightarrow> page \<Rightarrow> app \<Rightarrow> app" where
  "main now f_select f_get f_commit menu s =
     (case menu of
        View_Books \<Rightarrow> snd (get_all_books now f_select s)
      | Add_Book title' author' isbn' category' publication_year' submitted \<Rightarrow>
          if submitted then
            if strip title' \<noteq> [] \<and> strip author' \<noteq> [] then
              (case add_book f_commit (Some title') (Some author') (Some isbn')
                      (Some category') (Some publication_year') s of
                 (True, s') \<Rightarrow> get_all_books_clear s'
               | (False, s') \<Rightarrow> s')
            else st_error ''Title and Author are required fields'' s
          else s
      | Delete_Book book_id submitted \<Rightarrow>
          (case get_all_books now f_select s of
             (books_df, s1) \<Rightarrow>
               if books_df \<noteq> [] then
                 if submitted then
                   (case delete_book f_get f_commit book_id s1 of
                      (True, s2) \<Rightarrow> get_all_books_clear s2
                    | (False, s2) \<Rightarrow> st_error ''Book ID not found'' s2)
                 else s1
               else s1))"

section \<open>Sequences of operations\<close>

text \<open>
  The operations a caller of the service has: the three service functions, each with the
  faults its statements meet, and the clearing of the cache.
\<close>

datatype operation =
    Op_add fault "string option" "string option" "string option" "string option" "int option"
  | Op_list real fault
  | Op_delete fault fault int
  | Op_clear

fun step :: "operation \<Rightarrow> app \<Rightarrow> app" where
  "step (Op_add f t a i c y) s = snd (add_book f t a i c y s)"
| "step (Op_list now f) s = snd (get_all_books now f s)"
| "step (Op_delete f_get f_commit book_id) s = snd (delete_book f_get f_commit book_id s)"
| "step Op_clear s = get_all_books_clear s"

definition run :: "operation list \<Rightarrow> app \<Rightarrow> app" where
  "run ops s = fold step ops s"

text \<open>The operations that write to the table and leave the cache alone.\<close>

fun is_mutation :: "operation \<Rightarrow> bool" where
  "is_mutation (Op_add f t a i c y) = True"
| "is_mutation (Op_delete f_get f_commit book_id) = True"
| "is_mutation (Op_list now f) = False"
| "is_mutation Op_clear = False"

text \<open>The program's state at its first start: a new library.db, nothing shown, no entry.\<close>

definition fresh :: app where
  "fresh = \<lparr>table = [], shown = [], cache = None\<rparr>"

section \<open>Example libraries\<close>

text \<open>
  The scenario of the specification: the book that its add call stores in a new library,
  and the state after that call.
\<close>

definition kitab :: Book where
  "kitab =
     \<lparr>id' = Some 1, title = Some ''Kitab al-Manazir'', author = Some ''Ibn al-Haytham'',
      isbn = Some '''', category = Some ''Science'', publication_year = Some 1021,
      status = Some ''available''\<rparr>"

definition scenario_library :: app where
  "scenario_library =
     snd (add_book None (Some ''Kitab al-Manazir'') (Some ''Ibn al-Haytham'') (Some '''')
            (Some ''Science'') (Some 1021) fresh)"

text \<open>
  A library whose cache went stale: the scenario's library is listed at time 0, which
  stores the frame, and then a second book is added by a caller that does not clear the
  cache.
\<close>

definition qanun :: Book where
  "qanun =
     \<lparr>id' = Some 2, title = Some ''Al-Qanun fi al-Tibb'', author = Some ''Ibn Sina'',
      isbn = Some '''', category = Some ''Science'', publication_year = Some 1025,
      status = Some ''available''\<rparr>"

definition stale_library :: app where
  "stale_library =
     snd (add_book None (Some ''Al-Qanun fi al-Tibb'') (Some ''Ibn Sina'') (Some '''')
            (Some ''Science'') (Some 1025) (snd (get_all_books 0 None scenario_library)))"

text \<open>
  The scenario's library after the page listed it at time 0: once with the statement
  executed, which stores the frame with the book, and once with the database locked,
  which stores the empty frame that the function returns on the error.
\<close>

definition listed_library :: app where
  "listed_library = snd (get_all_books 0 None scenario_library)"

definition locked_library :: app where
  "locked_library =
     snd (get_all_books 0 (Some (OperationalError ''database is locked'')) scenario_library)"

section \<open>Basic facts about the storage layer and the service\<close>

lemma books_data_copy:
  "map (\<lambda>book. \<lparr>id' = id' book, title = title book, author = author book,
     isbn = isbn book, category = category book, publication_year = publication_year book,
     status = status book\<rparr>) (books::Book list) = books"
  by (induction books) simp_all

lemma fold_max_ge: "(x::int) \<in> set (a # xs) \<Longrightarrow> x \<le> fold max xs a"
  unfolding Max.set_eq_fold [symmetric] by (rule Max_ge) auto

lemma next_rowid_greater:
  assumes "b \<in> set rows" and "id' b = Some i"
  shows "i < next_rowid rows"
proof -
  have mem: "i \<in> set (List.map_filter id' rows)"
    using assms by (force simp: map_filter_def)
  then obtain j js where eq: "List.map_filter id' rows = j # js"
    by (cases "List.map_filter id' rows") auto
  with mem have "i \<le> fold max js j"
    by (simp add: fold_max_ge del: set_simps)
  with eq show ?thesis
    by (simp add: next_rowid_def)
qed

lemma next_rowid_fresh: "Some (next_rowid rows) \<notin> id' ` set rows"
  using next_rowid_greater by force

lemma get_all_books_body_None: "get_all_books_body None s = (table s, s)"
  by (simp add: get_all_books_body_def query_all_def books_data_copy Let_def)

lemma get_all_books_body_Some:
  "get_all_books_body (Some e) s = ([], st_error (''Error retrieving books: '' @ str e) s)"
  by (simp add: get_all_books_body_def query_all_def)

lemma body_table: "table (snd (get_all_books_body f s)) = table s"
  by (cases f) (simp_all add: get_all_books_body_None get_all_books_body_Some st_error_def)

lemma body_cache: "cache (snd (get_all_books_body f s)) = cache s"
  by (cases f) (simp_all add: get_all_books_body_None get_all_books_body_Some st_error_def)

lemma body_value: "fst (get_all_books_body f s) = (case f of None \<Rightarrow> table s | Some e \<Rightarrow> [])"
  by (cases f) (simp_all add: get_all_books_body_None get_all_books_body_Some)

lemma get_all_books_miss:
  "cache s = None \<Longrightarrow>
   get_all_books now f s =
     (fst (get_all_books_body f s),
      (snd (get_all_books_body f s))\<lparr>cache := Some (now, fst (get_all_books_body f s))\<rparr>)"
  by (simp add: get_all_books_def split: prod.splits)

lemma get_all_books_expired:
  "cache s = Some (stored, df) \<Longrightarrow> \<not> now < stored + ttl \<Longrightarrow>
   get_all_books now f s =
     (fst (get_all_books_body f s),
      (snd (get_all_books_body f s))\<lparr>cache := Some (now, fst (get_all_books_body f s))\<rparr>)"
  by (simp add: get_all_books_def split: prod.splits)

lemma get_all_books_hit:
  "cache s = Some (stored, df) \<Longrightarrow> now < stored + ttl \<Longrightarrow> get_all_books now f s = (df, s)"
  by (simp add: get_all_books_def)

lemma get_all_books_table: "table (snd (get_all_books now f s)) = table s"
proof (cases "cache s")
  case None
  then show ?thesis by (simp add: get_all_books_miss body_table)
next
  case (Some p)
  obtain stored df where "p = (stored, df)" by (cases p)
  with Some show ?thesis
    by (cases "now < stored + ttl")
      (simp_all add: get_all_books_hit get_all_books_expired body_table)
qed

lemma get_all_books_cached_value:
  "\<exists>t0. cache (snd (get_all_books now f s)) = Some (t0, fst (get_all_books now f s))"
proof (cases "cache s")
  case None
  then show ?thesis by (simp add: get_all_books_miss)
next
  case (Some p)
  obtain stored df where "p = (stored, df)" by (cases p)
  with Some show ?thesis
    by (cases "now < stored + ttl")
      (simp_all add: get_all_books_hit get_all_books_expired)
qed

lemma add_book_ok:
  "add_book None (Some t) (Some a) i c y s =
     (True, s\<lparr>table := table s @
        [\<lparr>id' = Some (next_rowid (table s)), title = Some t, author = Some a, isbn = i,
          category = c, publication_year = y, status = Some ''available''\<rparr>]\<rparr>)"
  by (simp add: add_book_def commit_insert_def Book_init_def Book_status_def Column_def)

lemma commit_insert_Inr_iff:
  "(\<exists>rows'. commit_insert f (Book_init t a i c y) rows = Inr rows') \<longleftrightarrow>
     (f = None \<and> t \<noteq> None \<and> a \<noteq> None)"
  by (auto simp: commit_insert_def Book_init_def Book_title_def Book_author_def Column_def
      split: option.splits)

lemma commit_insert_Inr:
  "commit_insert f (Book_init t a i c y) rows = Inr rows' \<Longrightarrow>
     rows' = rows @ [\<lparr>id' = Some (next_rowid rows), title = t, author = a, isbn = i,
          category = c, publication_year = y, status = Some ''available''\<rparr>]"
  by (auto simp: commit_insert_def Book_init_def Book_status_def Column_def
      split: option.splits if_splits)

lemma add_book_cache: "cache (snd (add_book f t a i c y s)) = cache s"
  by (simp add: add_book_def st_error_def split: sum.splits)

lemma delete_book_cache: "cache (snd (delete_book f_get f_commit i s)) = cache s"
  by (simp add: delete_book_def st_error_def split: sum.splits option.splits)

lemma find_id: "find (\<lambda>b. id' b = Some i) rows = Some b \<Longrightarrow> id' b = Some i"
  by (auto simp: find_Some_iff)

lemma delete_book_found:
  assumes "\<exists>b\<in>set (table s). id' b = Some i"
  shows "delete_book None None i s =
           (True, s\<lparr>table := filter (\<lambda>b. id' b \<noteq> Some i) (table s)\<rparr>)"
proof -
  from assms obtain b where b: "find (\<lambda>b. id' b = Some i) (table s) = Some b"
    by (cases "find (\<lambda>b. id' b = Some i) (table s)") (auto simp: find_None_iff)
  then have "id' b = Some i" by (rule find_id)
  with b show ?thesis
    by (simp add: delete_book_def query_get_def commit_delete_def)
qed

lemma delete_book_missing:
  assumes "\<not> (\<exists>b\<in>set (table s). id' b = Some i)"
  shows "delete_book None f_commit i s = (False, s)"
proof -
  from assms have "find (\<lambda>b. id' b = Some i) (table s) = None"
    by (simp add: find_None_iff)
  then show ?thesis
    by (simp add: delete_book_def query_get_def)
qed

lemma delete_book_missing_any:
  assumes "\<not> (\<exists>b\<in>set (table s). id' b = Some i)"
  shows "fst (delete_book f_get f_commit i s) = False \<and>
         table (snd (delete_book f_get f_commit i s)) = table s"
proof (cases f_get)
  case None
  with assms show ?thesis by (simp add: delete_book_missing)
next
  case (Some e)
  then show ?thesis by (simp add: delete_book_def query_get_def st_error_def)
qed

lemma next_rowid_Nil: "next_rowid [] = 1"
  by (simp add: next_rowid_def map_filter_def)

lemma scenario_library_eq:
  "scenario_library = \<lparr>table = [kitab], shown = [], cache = None\<rparr>"
  by (simp add: scenario_library_def add_book_ok fresh_def next_rowid_Nil kitab_def)

lemma get_all_books_value:
  "fst (get_all_books now f s) =
     (case cache s of
        None \<Rightarrow> (case f of None \<Rightarrow> table s | Some e \<Rightarrow> [])
      | Some (stored, df) \<Rightarrow>
          if now < stored + ttl then df else (case f of None \<Rightarrow> table s | Some e \<Rightarrow> []))"
proof (cases "cache s")
  case None
  then show ?thesis by (simp add: get_all_books_miss body_value)
next
  case (Some p)
  obtain stored df where "p = (stored, df)" by (cases p)
  with Some show ?thesis
    by (cases "now < stored + ttl")
      (simp_all add: get_all_books_hit get_all_books_expired body_value)
qed

section \<open>Add, then list\<close>

text \<open>
  Claim C1. For every title and author that are present (any two strings, so in
  particular every pair that passes the presence check of the page), when the database
  executes the statements: \<open>add_book\<close> returns \<open>True\<close>, and the frame that
  \<open>get_all_books\<close> returns after the cache was cleared is the frame that a fresh read
  gave before the add (the rows of the table), followed by exactly one more row, which
  carries that title, that author, the other values as given, the status "available",
  and an id that no row had before.
\<close>

theorem add_then_list_one_new_record:
  "fst (add_book None (Some t) (Some a) i c y s) = True \<and>
   fst (get_all_books now None
          (get_all_books_clear (snd (add_book None (Some t) (Some a) i c y s)))) =
     fst (get_all_books before None (get_all_books_clear s)) @
       [\<lparr>id' = Some (next_rowid (table s)), title = Some t, author = Some a, isbn = i,
         category = c, publication_year = y, status = Some ''available''\<rparr>] \<and>
   fst (get_all_books before None (get_all_books_clear s)) = table s \<and>
   Some (next_rowid (table s)) \<notin> id' ` set (table s)"
  by (simp add: add_book_ok get_all_books_miss get_all_books_clear_def
      get_all_books_body_None next_rowid_fresh)

theorem add_then_list_one_new_record_witness:
  "fst (add_book None (Some ''Kitab al-Manazir'') (Some ''Ibn al-Haytham'') (Some '''')
          (Some ''Science'') (Some 1021) fresh) = True \<and>
   fst (get_all_books 5 None
          (get_all_books_clear
             (snd (add_book None (Some ''Kitab al-Manazir'') (Some ''Ibn al-Haytham'')
                     (Some '''') (Some ''Science'') (Some 1021) fresh)))) =
     [\<lparr>id' = Some 1, title = Some ''Kitab al-Manazir'', author = Some ''Ibn al-Haytham'',
       isbn = Some '''', category = Some ''Science'', publication_year = Some 1021,
       status = Some ''available''\<rparr>]"
  using add_then_list_one_new_record [of "''Kitab al-Manazir''" "''Ibn al-Haytham''"
      "Some ''''" "Some ''Science''" "Some 1021" fresh 5 0]
  by (simp add: fresh_def next_rowid_Nil)

lemma listed_library_eq:
  "listed_library = \<lparr>table = [kitab], shown = [], cache = Some (0, [kitab])\<rparr>"
  by (simp add: listed_library_def scenario_library_eq get_all_books_miss
      get_all_books_body_None)

lemma locked_library_eq:
  "locked_library =
     \<lparr>table = [kitab], shown = [''Error retrieving books: database is locked''],
      cache = Some (0, [])\<rparr>"
  by (simp add: locked_library_def scenario_library_eq get_all_books_miss
      get_all_books_body_Some st_error_def)

lemma delete_book_kitab:
  "delete_book None None 1 \<lparr>table = [kitab], shown = sh, cache = ca\<rparr> =
     (True, \<lparr>table = [], shown = sh, cache = ca\<rparr>)"
  by (simp add: delete_book_found kitab_def)

section \<open>Delete\<close>

text \<open>
  Claim C2, as stated, fails in its scenario: \<open>delete_book\<close> does not touch the cache.
  In \<open>listed_library\<close> book 1 is the only record, and the cache holds the frame that a
  list at time 0 stored. Deleting 1 returns \<open>True\<close> and empties the table, yet the list
  that follows at time 10 returns the stored frame, which still has book 1.
\<close>

theorem delete_then_list_without_clear_counterexample:
  "table listed_library = [kitab] \<and>
   fst (delete_book None None 1 listed_library) = True \<and>
   table (snd (delete_book None None 1 listed_library)) = [] \<and>
   fst (get_all_books 10 None (snd (delete_book None None 1 listed_library))) = [kitab]"
  by (simp add: listed_library_eq delete_book_kitab get_all_books_hit ttl_def)

text \<open>
  Claim C2, amended. When the database executes the statements: for every id,
  \<open>delete_book\<close> returns \<open>True\<close> and removes the row when the table has a row with that id
  (no row with the id is left, every other row stays), and returns \<open>False\<close> and changes
  nothing when the table has none. In the scenario where book 1 is the only row, deleting
  1 returns \<open>True\<close> and leaves the table empty. The list that follows is empty when the
  caller cleared the cache after the delete, as the page does, and also when the cache
  holds no entry or one that is 60 time units old or older; when the cache holds a younger
  frame, the list returns that frame, whatever it is. Deleting 1 again returns \<open>False\<close>,
  whether or not a list or a clearing of the cache came in between.
\<close>

theorem delete_book_existing_or_not:
  "((\<exists>b\<in>set (table s). id' b = Some i) \<longrightarrow>
      delete_book None None i s =
        (True, s\<lparr>table := filter (\<lambda>b. id' b \<noteq> Some i) (table s)\<rparr>) \<and>
      (\<forall>b\<in>set (table (snd (delete_book None None i s))). id' b \<noteq> Some i)) \<and>
   (\<not> (\<exists>b\<in>set (table s). id' b = Some i) \<longrightarrow> delete_book None None i s = (False, s)) \<and>
   (table s = [b1] \<and> id' b1 = Some 1 \<longrightarrow>
      delete_book None None 1 s = (True, s\<lparr>table := []\<rparr>) \<and>
      fst (get_all_books now None (get_all_books_clear (snd (delete_book None None 1 s)))) =
        [] \<and>
      ((cache s = None \<or>
        (\<exists>stored df. cache s = Some (stored, df) \<and> \<not> now < stored + ttl)) \<longrightarrow>
         fst (get_all_books now None (snd (delete_book None None 1 s))) = []) \<and>
      (cache s = Some (stored', df') \<and> now < stored' + ttl \<longrightarrow>
         fst (get_all_books now None (snd (delete_book None None 1 s))) = df') \<and>
      fst (delete_book None None 1 (snd (delete_book None None 1 s))) = False \<and>
      fst (delete_book None None 1
             (snd (get_all_books now f (snd (delete_book None None 1 s))))) = False \<and>
      fst (delete_book None None 1
             (snd (get_all_books now f
                     (get_all_books_clear (snd (delete_book None None 1 s)))))) = False)"
proof (intro conjI impI)
  assume ex: "\<exists>b\<in>set (table s). id' b = Some i"
  then show del: "delete_book None None i s =
      (True, s\<lparr>table := filter (\<lambda>b. id' b \<noteq> Some i) (table s)\<rparr>)"
    by (rule delete_book_found)
  show "\<forall>b\<in>set (table (snd (delete_book None None i s))). id' b \<noteq> Some i"
    by (simp add: del)
next
  assume "\<not> (\<exists>b\<in>set (table s). id' b = Some i)"
  then show "delete_book None None i s = (False, s)"
    by (rule delete_book_missing)
next
  assume one: "table s = [b1] \<and> id' b1 = Some 1"
  then have "\<exists>b\<in>set (table s). id' b = Some 1" by simp
  then have "delete_book None None 1 s =
      (True, s\<lparr>table := filter (\<lambda>b. id' b \<noteq> Some 1) (table s)\<rparr>)"
    by (rule delete_book_found)
  with one show del: "delete_book None None 1 s = (True, s\<lparr>table := []\<rparr>)"
    by simp
  show "fst (get_all_books now None
             (get_all_books_clear (snd (delete_book None None 1 s)))) = []"
    by (simp add: del get_all_books_value get_all_books_clear_def)
  have gone: "\<And>s'. table s' = [] \<Longrightarrow> fst (delete_book None None 1 s') = False"
    by (simp add: delete_book_missing)
  show "fst (delete_book None None 1 (snd (delete_book None None 1 s))) = False"
    by (rule gone) (simp add: del)
  show "fst (delete_book None None 1
             (snd (get_all_books now f (snd (delete_book None None 1 s))))) = False"
    by (rule gone) (simp add: get_all_books_table del)
  show "fst (delete_book None None 1
             (snd (get_all_books now f
                     (get_all_books_clear (snd (delete_book None None 1 s)))))) = False"
    by (rule gone) (simp add: get_all_books_table del get_all_books_clear_def)
  {
    assume "cache s = None \<or>
        (\<exists>stored df. cache s = Some (stored, df) \<and> \<not> now < stored + ttl)"
    then show "fst (get_all_books now None (snd (delete_book None None 1 s))) = []"
      by (auto simp: del get_all_books_value)
  }
  {
    assume "cache s = Some (stored', df') \<and> now < stored' + ttl"
    then show "fst (get_all_books now None (snd (delete_book None None 1 s))) = df'"
      by (simp add: del get_all_books_value)
  }
qed

theorem delete_book_existing_or_not_witness:
  "delete_book None None 1 scenario_library = (True, fresh) \<and>
   fst (get_all_books 7 None
          (get_all_books_clear (snd (delete_book None None 1 scenario_library)))) = [] \<and>
   fst (get_all_books 7 None (snd (delete_book None None 1 scenario_library))) = [] \<and>
   fst (delete_book None None 1 (snd (delete_book None None 1 scenario_library))) = False \<and>
   fst (get_all_books 10 None
          (get_all_books_clear (snd (delete_book None None 1 listed_library)))) = [] \<and>
   fst (get_all_books 60 None (snd (delete_book None None 1 listed_library))) = [] \<and>
   fst (get_all_books 10 None (snd (delete_book None None 1 listed_library))) = [kitab] \<and>
   delete_book None None 2 scenario_library = (False, scenario_library)"
proof -
  have k: "id' kitab = Some 1"
    by (simp add: kitab_def)
  have s: "table scenario_library = [kitab] \<and> id' kitab = Some 1"
    by (simp add: scenario_library_eq k)
  have l: "table listed_library = [kitab] \<and> id' kitab = Some 1"
    by (simp add: listed_library_eq k)
  have cs: "cache scenario_library = None"
    by (simp add: scenario_library_eq)
  have old: "\<exists>stored df. cache listed_library = Some (stored, df) \<and> \<not> 60 < stored + ttl"
    by (simp add: listed_library_eq ttl_def)
  have live: "cache listed_library = Some (0, [kitab]) \<and> 10 < 0 + ttl"
    by (simp add: listed_library_eq ttl_def)
  have no2: "\<not> (\<exists>b\<in>set (table scenario_library). id' b = Some 2)"
    by (simp add: scenario_library_eq kitab_def)
  have a1: "delete_book None None 1 scenario_library =
      (True, scenario_library\<lparr>table := []\<rparr>)"
    and a2: "fst (get_all_books 7 None
      (get_all_books_clear (snd (delete_book None None 1 scenario_library)))) = []"
    and a3: "fst (get_all_books 7 None (snd (delete_book None None 1 scenario_library))) = []"
    and a4: "fst (delete_book None None 1
      (snd (delete_book None None 1 scenario_library))) = False"
    using delete_book_existing_or_not [of scenario_library 1 kitab 7 0 "[kitab]" None] s cs
    by blast+
  have b1: "fst (get_all_books 10 None
      (get_all_books_clear (snd (delete_book None None 1 listed_library)))) = []"
    and b2: "fst (get_all_books 10 None (snd (delete_book None None 1 listed_library))) =
      [kitab]"
    using delete_book_existing_or_not [of listed_library 1 kitab 10 0 "[kitab]" None] l live
    by blast+
  have b3: "fst (get_all_books 60 None (snd (delete_book None None 1 listed_library))) = []"
    using delete_book_existing_or_not [of listed_library 1 kitab 60 0 "[kitab]" None] l old
    by blast
  have c1: "delete_book None None 2 scenario_library = (False, scenario_library)"
    using delete_book_existing_or_not [of scenario_library 2 kitab 7 0 "[kitab]" None] no2
    by blast
  have a1': "delete_book None None 1 scenario_library = (True, fresh)"
    unfolding a1 by (simp add: scenario_library_eq fresh_def)
  from a1' a2 a3 a4 b1 b2 b3 c1 show ?thesis
    by blast
qed

section \<open>Add\<close>

text \<open>
  Claim C3. When the commit succeeds, \<open>add_book\<close> returns \<open>True\<close> and the table is the
  old table followed by exactly one new row: the values given, the status "available", and
  an id assigned by the storage layer that no row had before. When the storage layer
  rejects the write with an error \<open>e\<close>, \<open>add_book\<close> returns \<open>False\<close>, shows the error to
  the user with \<^verbatim>\<open>st.error\<close> and leaves the table and the cache as they were. The commit
  succeeds exactly when the statement meets no fault and neither title nor author is
  \<^verbatim>\<open>None\<close>; in every other case it is rejected.
\<close>

theorem add_book_commit_or_reject:
  "(commit_insert f (Book_init t a i c y) (table s) = Inr rows \<longrightarrow>
      add_book f t a i c y s = (True, s\<lparr>table := rows\<rparr>) \<and>
      rows = table s @
        [\<lparr>id' = Some (next_rowid (table s)), title = t, author = a, isbn = i,
          category = c, publication_year = y, status = Some ''available''\<rparr>] \<and>
      Some (next_rowid (table s)) \<notin> id' ` set (table s)) \<and>
   (commit_insert f (Book_init t a i c y) (table s) = Inl e \<longrightarrow>
      add_book f t a i c y s =
        (False, s\<lparr>shown := shown s @ [''Error adding book: '' @ str e]\<rparr>)) \<and>
   ((\<exists>rows'. commit_insert f (Book_init t a i c y) (table s) = Inr rows') \<longleftrightarrow>
      f = None \<and> t \<noteq> None \<and> a \<noteq> None)"
proof (intro conjI impI)
  assume ok: "commit_insert f (Book_init t a i c y) (table s) = Inr rows"
  then show "add_book f t a i c y s = (True, s\<lparr>table := rows\<rparr>)"
    by (simp add: add_book_def)
  from ok show "rows = table s @
        [\<lparr>id' = Some (next_rowid (table s)), title = t, author = a, isbn = i,
          category = c, publication_year = y, status = Some ''available''\<rparr>]"
    by (rule commit_insert_Inr)
  show "Some (next_rowid (table s)) \<notin> id' ` set (table s)"
    by (rule next_rowid_fresh)
next
  assume "commit_insert f (Book_init t a i c y) (table s) = Inl e"
  then show "add_book f t a i c y s =
        (False, s\<lparr>shown := shown s @ [''Error adding book: '' @ str e]\<rparr>)"
    by (simp add: add_book_def st_error_def)
next
  show "(\<exists>rows'. commit_insert f (Book_init t a i c y) (table s) = Inr rows') \<longleftrightarrow>
      f = None \<and> t \<noteq> None \<and> a \<noteq> None"
    by (rule commit_insert_Inr_iff)
qed

theorem add_book_commit_or_reject_witness:
  "add_book None (Some ''Kitab al-Manazir'') (Some ''Ibn al-Haytham'') (Some '''')
      (Some ''Science'') (Some 1021) fresh =
     (True, \<lparr>table = [kitab], shown = [], cache = None\<rparr>) \<and>
   add_book (Some (OperationalError ''database is locked'')) (Some ''Kitab al-Manazir'')
      (Some ''Ibn al-Haytham'') (Some '''') (Some ''Science'') (Some 1021) fresh =
     (False, \<lparr>table = [], shown = [''Error adding book: database is locked''],
              cache = None\<rparr>) \<and>
   add_book None None (Some ''Ibn al-Haytham'') (Some '''') (Some ''Science'') (Some 1021)
      fresh =
     (False, \<lparr>table = [],
              shown = [''Error adding book: NOT NULL constraint failed: books.title''],
              cache = None\<rparr>)"
proof -
  have ok: "commit_insert None
      (Book_init (Some ''Kitab al-Manazir'') (Some ''Ibn al-Haytham'') (Some '''')
         (Some ''Science'') (Some 1021)) (table fresh) = Inr [kitab]"
    by (simp add: commit_insert_def Book_init_def Book_title_def Book_author_def
        Book_status_def Column_def fresh_def next_rowid_Nil kitab_def)
  have locked: "commit_insert (Some (OperationalError ''database is locked''))
      (Book_init (Some ''Kitab al-Manazir'') (Some ''Ibn al-Haytham'') (Some '''')
         (Some ''Science'') (Some 1021)) (table fresh) =
      Inl (OperationalError ''database is locked'')"
    by (simp add: commit_insert_def)
  have null: "commit_insert None
      (Book_init None (Some ''Ibn al-Haytham'') (Some '''') (Some ''Science'') (Some 1021))
      (table fresh) = Inl (IntegrityError ''NOT NULL constraint failed: books.title'')"
    by (simp add: commit_insert_def Book_init_def Book_title_def Column_def)
  have a1: "add_book None (Some ''Kitab al-Manazir'') (Some ''Ibn al-Haytham'') (Some '''')
      (Some ''Science'') (Some 1021) fresh = (True, fresh\<lparr>table := [kitab]\<rparr>)"
    using add_book_commit_or_reject [of None "Some ''Kitab al-Manazir''"
        "Some ''Ibn al-Haytham''" "Some ''''" "Some ''Science''" "Some 1021" fresh
        "[kitab]"] ok
    by simp
  have a2: "add_book (Some (OperationalError ''database is locked''))
      (Some ''Kitab al-Manazir'') (Some ''Ibn al-Haytham'') (Some '''') (Some ''Science'')
      (Some 1021) fresh =
      (False, fresh\<lparr>shown := shown fresh @
         [''Error adding book: '' @ str (OperationalError ''database is locked'')]\<rparr>)"
    using add_book_commit_or_reject [of "Some (OperationalError ''database is locked'')"
        "Some ''Kitab al-Manazir''" "Some ''Ibn al-Haytham''" "Some ''''"
        "Some ''Science''" "Some 1021" fresh _ "OperationalError ''database is locked''"]
      locked
    by simp
  have a3: "add_book None None (Some ''Ibn al-Haytham'') (Some '''') (Some ''Science'')
      (Some 1021) fresh =
      (False, fresh\<lparr>shown := shown fresh @
         [''Error adding book: '' @
          str (IntegrityError ''NOT NULL constraint failed: books.title'')]\<rparr>)"
    using add_book_commit_or_reject [of None None
        "Some ''Ibn al-Haytham''" "Some ''''" "Some ''Science''" "Some 1021" fresh _
        "IntegrityError ''NOT NULL constraint failed: books.title''"] null
    by simp
  show ?thesis
    unfolding a1 a2 a3 by (simp add: fresh_def)
qed

section \<open>Delete, then list\<close>

text \<open>
  Claim C4. When the table has a row with the id and the database executes the statements,
  \<open>delete_book\<close> returns \<open>True\<close>, and the frame that \<open>get_all_books\<close> returns after the
  cache was cleared has no row with that id: it is the table without the rows of that id.
  When the table has no row with the id, \<open>delete_book\<close> returns \<open>False\<close> whatever the
  statements meet, the table and the cache entry are unchanged, and so is what the next
  \<open>get_all_books\<close> returns.
\<close>

theorem delete_then_list:
  "((\<exists>b\<in>set (table s). id' b = Some i) \<longrightarrow>
      fst (delete_book None None i s) = True \<and>
      (\<forall>r\<in>set (fst (get_all_books now None
                        (get_all_books_clear (snd (delete_book None None i s))))).
          id' r \<noteq> Some i) \<and>
      fst (get_all_books now None (get_all_books_clear (snd (delete_book None None i s)))) =
        filter (\<lambda>b. id' b \<noteq> Some i) (table s)) \<and>
   (\<not> (\<exists>b\<in>set (table s). id' b = Some i) \<longrightarrow>
      fst (delete_book f_get f_commit i s) = False \<and>
      table (snd (delete_book f_get f_commit i s)) = table s \<and>
      cache (snd (delete_book f_get f_commit i s)) = cache s \<and>
      fst (get_all_books now f (snd (delete_book f_get f_commit i s))) =
        fst (get_all_books now f s))"
proof (intro conjI impI)
  assume "\<exists>b\<in>set (table s). id' b = Some i"
  then have del: "delete_book None None i s =
      (True, s\<lparr>table := filter (\<lambda>b. id' b \<noteq> Some i) (table s)\<rparr>)"
    by (rule delete_book_found)
  show "fst (delete_book None None i s) = True"
    by (simp add: del)
  show snap: "fst (get_all_books now None
      (get_all_books_clear (snd (delete_book None None i s)))) =
        filter (\<lambda>b. id' b \<noteq> Some i) (table s)"
    by (simp add: del get_all_books_miss get_all_books_clear_def get_all_books_body_None)
  show "\<forall>r\<in>set (fst (get_all_books now None
                        (get_all_books_clear (snd (delete_book None None i s))))).
          id' r \<noteq> Some i"
    unfolding snap by simp
next
  assume no: "\<not> (\<exists>b\<in>set (table s). id' b = Some i)"
  then show "fst (delete_book f_get f_commit i s) = False"
    by (simp add: delete_book_missing_any)
  from no show tab: "table (snd (delete_book f_get f_commit i s)) = table s"
    by (simp add: delete_book_missing_any)
  show "cache (snd (delete_book f_get f_commit i s)) = cache s"
    by (rule delete_book_cache)
  show "fst (get_all_books now f (snd (delete_book f_get f_commit i s))) =
        fst (get_all_books now f s)"
    by (simp add: get_all_books_value tab delete_book_cache split: option.splits)
qed

theorem delete_then_list_witness:
  "fst (delete_book None None 1 scenario_library) = True \<and>
   fst (get_all_books 7 None
          (get_all_books_clear (snd (delete_book None None 1 scenario_library)))) = [] \<and>
   fst (delete_book None None 2 scenario_library) = False \<and>
   table (snd (delete_book None None 2 scenario_library)) = [kitab] \<and>
   fst (get_all_books 7 None (snd (delete_book None None 2 scenario_library))) = [kitab]"
  using delete_then_list [of scenario_library 1 7 None None None]
    delete_then_list [of scenario_library 2 7 None None None]
  by (simp add: scenario_library_eq kitab_def get_all_books_value)

section \<open>List\<close>

text \<open>
  Claim C5, as stated, fails for the decorated function: while the cache holds an entry
  younger than 60 time units, \<open>get_all_books\<close> returns the stored frame and not the
  records of the table. In \<open>locked_library\<close> the list at time 0 met a locked database and
  stored the empty frame; the list at time 10 meets no error and returns the empty frame
  although the table holds the book. In \<open>listed_library\<close>, after book 1 was deleted with
  no clearing of the cache, the list at time 10 returns the book although the table is
  empty.
\<close>

theorem list_with_live_cache_entry_counterexample:
  "table locked_library = [kitab] \<and>
   fst (get_all_books 10 None locked_library) = [] \<and>
   table (snd (delete_book None None 1 listed_library)) = [] \<and>
   fst (get_all_books 10 None (snd (delete_book None None 1 listed_library))) = [kitab]"
  by (simp add: locked_library_eq listed_library_eq delete_book_kitab get_all_books_hit
      ttl_def)

text \<open>
  Claim C5, amended. \<open>get_all_books\<close> takes no argument of the caller. The function under
  the decorator returns every row of the table in the order in which the storage layer
  returns them, without sorting; it returns the empty frame when the table is empty and
  when the statement meets an error. The error does not leave the function: the result is
  a frame, the text of the error is shown with \<^verbatim>\<open>st.error\<close>, and the one statement is not
  sent a second time (the frame is empty although the table may have rows). The decorated
  function gives these frames whenever it runs the function, that is when the cache holds
  no entry or an entry that is 60 time units old or older, and it never writes to the
  table. While the cache holds a younger entry, it returns the stored frame instead,
  whatever the table holds and whatever the statement would meet, and changes nothing.
\<close>

theorem get_all_books_snapshot:
  "get_all_books_body None s = (table s, s) \<and>
   (table s = [] \<longrightarrow> fst (get_all_books_body f s) = []) \<and>
   get_all_books_body (Some e) s =
     ([], s\<lparr>shown := shown s @ [''Error retrieving books: '' @ str e]\<rparr>) \<and>
   ((cache s = None \<or> (\<exists>stored df. cache s = Some (stored, df) \<and> \<not> now < stored + ttl)) \<longrightarrow>
      fst (get_all_books now None s) = table s \<and>
      fst (get_all_books now (Some e) s) = [] \<and>
      table (snd (get_all_books now f s)) = table s) \<and>
   (cache s = Some (stored', df') \<and> now < stored' + ttl \<longrightarrow>
      get_all_books now f s = (df', s))"
proof (intro conjI impI)
  show "get_all_books_body None s = (table s, s)"
    by (rule get_all_books_body_None)
  show "get_all_books_body (Some e) s =
     ([], s\<lparr>shown := shown s @ [''Error retrieving books: '' @ str e]\<rparr>)"
    by (simp add: get_all_books_body_Some st_error_def)
next
  assume "table s = []"
  then show "fst (get_all_books_body f s) = []"
    by (cases f) (simp_all add: body_value)
next
  assume stale: "cache s = None \<or>
    (\<exists>stored df. cache s = Some (stored, df) \<and> \<not> now < stored + ttl)"
  then show "fst (get_all_books now None s) = table s"
    by (auto simp: get_all_books_value)
  from stale show "fst (get_all_books now (Some e) s) = []"
    by (auto simp: get_all_books_value)
  show "table (snd (get_all_books now f s)) = table s"
    by (rule get_all_books_table)
next
  assume "cache s = Some (stored', df') \<and> now < stored' + ttl"
  then show "get_all_books now f s = (df', s)"
    by (simp add: get_all_books_hit)
qed

theorem get_all_books_snapshot_witness:
  "get_all_books_body None scenario_library = ([kitab], scenario_library) \<and>
   fst (get_all_books_body None fresh) = [] \<and>
   get_all_books_body (Some (OperationalError ''database is locked'')) scenario_library =
     ([], \<lparr>table = [kitab], shown = [''Error retrieving books: database is locked''],
           cache = None\<rparr>) \<and>
   fst (get_all_books 3 None scenario_library) = [kitab] \<and>
   fst (get_all_books 3 (Some (OperationalError ''database is locked'')) scenario_library) =
     [] \<and>
   fst (get_all_books 60 None locked_library) = [kitab] \<and>
   get_all_books 10 None locked_library = ([], locked_library)"
proof -
  have cs: "cache scenario_library = None"
    by (simp add: scenario_library_eq)
  have ts: "table scenario_library = [kitab]"
    by (simp add: scenario_library_eq)
  have tf: "table fresh = []"
    by (simp add: fresh_def)
  have tl: "table locked_library = [kitab]"
    by (simp add: locked_library_eq)
  have old: "\<exists>stored df. cache locked_library = Some (stored, df) \<and> \<not> 60 < stored + ttl"
    by (simp add: locked_library_eq ttl_def)
  have live: "cache locked_library = Some (0, []) \<and> 10 < 0 + ttl"
    by (simp add: locked_library_eq ttl_def)
  have a1: "get_all_books_body None scenario_library = (table scenario_library, scenario_library)"
    and a2: "get_all_books_body (Some (OperationalError ''database is locked''))
        scenario_library =
      ([], scenario_library\<lparr>shown := shown scenario_library @
         [''Error retrieving books: '' @ str (OperationalError ''database is locked'')]\<rparr>)"
    and a3: "fst (get_all_books 3 None scenario_library) = table scenario_library"
    and a4: "fst (get_all_books 3 (Some (OperationalError ''database is locked''))
        scenario_library) = []"
    using get_all_books_snapshot [of scenario_library None
        "OperationalError ''database is locked''" 3 0 "[]"] cs
    by blast+
  have b1: "fst (get_all_books_body None fresh) = []"
    using get_all_books_snapshot [of fresh None "OperationalError ''database is locked''"
        3 0 "[]"] tf
    by blast
  have c1: "fst (get_all_books 60 None locked_library) = table locked_library"
    using get_all_books_snapshot [of locked_library None
        "OperationalError ''database is locked''" 60 0 "[]"] old
    by blast
  have c2: "get_all_books 10 None locked_library = ([], locked_library)"
    using get_all_books_snapshot [of locked_library None
        "OperationalError ''database is locked''" 10 0 "[]"] live
    by blast
  have a2': "get_all_books_body (Some (OperationalError ''database is locked''))
        scenario_library =
     ([], \<lparr>table = [kitab], shown = [''Error retrieving books: database is locked''],
           cache = None\<rparr>)"
    unfolding a2 by (simp add: scenario_library_eq)
  from a1 a2' a3 a4 b1 c1 c2 ts tl show ?thesis
    by simp
qed

lemma step_cache_mutation: "is_mutation op \<Longrightarrow> cache (step op s) = cache s"
  by (cases op) (simp_all add: add_book_cache delete_book_cache)

lemma run_cache_mutations:
  "\<forall>op\<in>set ops. is_mutation op \<Longrightarrow> cache (run ops s) = cache s"
  unfolding run_def by (induction ops arbitrary: s) (simp_all add: step_cache_mutation)

lemma next_rowid_kitab: "next_rowid [kitab] = 2"
  by (simp add: next_rowid_def map_filter_def kitab_def)

lemma stale_library_eq:
  "stale_library = \<lparr>table = [kitab, qanun], shown = [], cache = Some (0, [kitab])\<rparr>"
  by (simp add: stale_library_def scenario_library_eq get_all_books_miss
      get_all_books_body_None add_book_ok next_rowid_kitab qanun_def)

section \<open>The cache window\<close>

text \<open>
  Claim C6, as stated, fails: the 60 time units of the cache count from the moment the
  stored frame was computed, not from the previous call. In \<open>stale_library\<close> the frame
  was stored at time 0. The call at time 50 is served from the cache; the call at time 70,
  only 20 time units later and with nothing in between, finds the entry expired and reads
  the table again, so it returns the second book as well. Likewise, with no mutation at
  all, the call at time 70 returns the empty frame when its statement meets an error,
  where the call at time 50 returned the book; and when its statement is executed it
  returns the same frame, but read from the table and stored anew at time 70, not served
  from the cache.
\<close>

theorem list_within_60_of_each_other_counterexample:
  "fst (get_all_books 50 None stale_library) = [kitab] \<and>
   fst (get_all_books 70 None (snd (get_all_books 50 None stale_library))) = [kitab, qanun] \<and>
   fst (get_all_books 50 None (snd (get_all_books 0 None scenario_library))) = [kitab] \<and>
   fst (get_all_books 70 (Some (OperationalError ''database is locked''))
          (snd (get_all_books 50 None (snd (get_all_books 0 None scenario_library))))) = [] \<and>
   cache (snd (get_all_books 50 None (snd (get_all_books 0 None scenario_library)))) =
     Some (0, [kitab]) \<and>
   cache (snd (get_all_books 70 None
                 (snd (get_all_books 50 None (snd (get_all_books 0 None scenario_library)))))) =
     Some (70, [kitab]) \<and>
   (70::real) - 50 < ttl"
  by (simp add: stale_library_eq scenario_library_eq get_all_books_hit get_all_books_miss
      get_all_books_expired get_all_books_body_None get_all_books_body_Some ttl_def)

text \<open>
  Claim C6, amended. Let a first call of \<open>get_all_books\<close> return a frame, and let the
  cache entry after it have been stored at time \<open>t0\<close> (the time of that call when it ran
  the function, an earlier time when it was itself served from the cache). A second call
  less than 60 time units after \<open>t0\<close>, with only calls of \<open>add_book\<close> and \<open>delete_book\<close>
  and no clearing of the cache in between, returns the same frame and leaves the state as
  it is: it is served from the cache, whatever its statement would have met. In particular
  this holds for two calls less than 60 time units apart when the first one found no
  entry, or an expired one, and so computed the frame itself.
\<close>

theorem list_idempotent_in_cache_window:
  "(get_all_books t1 f1 s = (df1, s1) \<and> cache s1 = Some (t0, df) \<and>
      (\<forall>op\<in>set ops. is_mutation op) \<and> t2 < t0 + ttl \<longrightarrow>
      get_all_books t2 f2 (run ops s1) = (df1, run ops s1)) \<and>
   ((cache s = None \<or> (\<exists>stored df'. cache s = Some (stored, df') \<and> \<not> t1 < stored + ttl)) \<and>
      (\<forall>op\<in>set ops. is_mutation op) \<and> t2 < t1 + ttl \<longrightarrow>
      get_all_books t2 f2 (run ops (snd (get_all_books t1 f1 s))) =
        (fst (get_all_books t1 f1 s), run ops (snd (get_all_books t1 f1 s))))"
proof (intro conjI impI)
  assume a: "get_all_books t1 f1 s = (df1, s1) \<and> cache s1 = Some (t0, df) \<and>
      (\<forall>op\<in>set ops. is_mutation op) \<and> t2 < t0 + ttl"
  from get_all_books_cached_value [of t1 f1 s] a have "df = df1"
    by auto
  with a have "cache (run ops s1) = Some (t0, df1)"
    by (simp add: run_cache_mutations)
  with a show "get_all_books t2 f2 (run ops s1) = (df1, run ops s1)"
    by (simp add: get_all_books_hit)
next
  assume a: "(cache s = None \<or>
      (\<exists>stored df'. cache s = Some (stored, df') \<and> \<not> t1 < stored + ttl)) \<and>
      (\<forall>op\<in>set ops. is_mutation op) \<and> t2 < t1 + ttl"
  then have "cache (snd (get_all_books t1 f1 s)) = Some (t1, fst (get_all_books t1 f1 s))"
    by (auto simp: get_all_books_miss get_all_books_expired)
  with a have "cache (run ops (snd (get_all_books t1 f1 s))) =
      Some (t1, fst (get_all_books t1 f1 s))"
    by (simp add: run_cache_mutations)
  with a show "get_all_books t2 f2 (run ops (snd (get_all_books t1 f1 s))) =
        (fst (get_all_books t1 f1 s), run ops (snd (get_all_books t1 f1 s)))"
    by (simp add: get_all_books_hit)
qed

theorem list_idempotent_in_cache_window_witness:
  "get_all_books 0 None scenario_library =
     ([kitab], \<lparr>table = [kitab], shown = [], cache = Some (0, [kitab])\<rparr>) \<and>
   run [Op_add None (Some ''Al-Qanun fi al-Tibb'') (Some ''Ibn Sina'') (Some '''')
          (Some ''Science'') (Some 1025)]
       \<lparr>table = [kitab], shown = [], cache = Some (0, [kitab])\<rparr> = stale_library \<and>
   get_all_books 50 (Some (OperationalError ''database is locked'')) stale_library =
     ([kitab], stale_library)"
proof -
  have first: "get_all_books 0 None scenario_library =
     ([kitab], \<lparr>table = [kitab], shown = [], cache = Some (0, [kitab])\<rparr>)"
    by (simp add: scenario_library_eq get_all_books_miss get_all_books_body_None)
  have between: "run [Op_add None (Some ''Al-Qanun fi al-Tibb'') (Some ''Ibn Sina'')
          (Some '''') (Some ''Science'') (Some 1025)]
       \<lparr>table = [kitab], shown = [], cache = Some (0, [kitab])\<rparr> = stale_library"
    by (simp add: run_def stale_library_def first)
  have "get_all_books 50 (Some (OperationalError ''database is locked''))
      (run [Op_add None (Some ''Al-Qanun fi al-Tibb'') (Some ''Ibn Sina'') (Some '''')
          (Some ''Science'') (Some 1025)]
       \<lparr>table = [kitab], shown = [], cache = Some (0, [kitab])\<rparr>) =
     ([kitab], run [Op_add None (Some ''Al-Qanun fi al-Tibb'') (Some ''Ibn Sina'')
          (Some '''') (Some ''Science'') (Some 1025)]
       \<lparr>table = [kitab], shown = [], cache = Some (0, [kitab])\<rparr>)"
    using list_idempotent_in_cache_window [of 0 None scenario_library "[kitab]"
        "\<lparr>table = [kitab], shown = [], cache = Some (0, [kitab])\<rparr>" 0 "[kitab]"
        "[Op_add None (Some ''Al-Qanun fi al-Tibb'') (Some ''Ibn Sina'') (Some '''')
          (Some ''Science'') (Some 1025)]" 50
        "Some (OperationalError ''database is locked'')"] first
    by (simp add: ttl_def)
  with first between show ?thesis
    by simp
qed

section \<open>Facts about the page script and about sequences of operations\<close>

lemma add_book_result:
  "add_book f t a i c y s =
     (if f = None \<and> t \<noteq> None \<and> a \<noteq> None then
        (True, s\<lparr>table := table s @
           [\<lparr>id' = Some (next_rowid (table s)), title = t, author = a, isbn = i,
             category = c, publication_year = y, status = Some ''available''\<rparr>]\<rparr>)
      else (False, s\<lparr>shown := shown s @
           [''Error adding book: '' @
            str (case f of
                   Some e \<Rightarrow> e
                 | None \<Rightarrow>
                     if t = None
                     then IntegrityError ''NOT NULL constraint failed: books.title''
                     else IntegrityError ''NOT NULL constraint failed: books.author'')]\<rparr>))"
  by (cases f; cases t; cases a)
    (simp_all add: add_book_def commit_insert_def Book_init_def Book_title_def
      Book_author_def Book_status_def Column_def st_error_def)

lemma add_book_fail_table:
  "\<not> fst (add_book f t a i c y s) \<Longrightarrow> table (snd (add_book f t a i c y s)) = table s"
  by (simp add: add_book_result split: if_splits)

lemma delete_book_table:
  "table (snd (delete_book f_get f_commit i s)) =
     (if fst (delete_book f_get f_commit i s)
      then filter (\<lambda>b. id' b \<noteq> Some i) (table s) else table s)"
proof (cases "query_get f_get i (table s)")
  case (Inl e)
  then show ?thesis by (simp add: delete_book_def st_error_def)
next
  case (Inr found)
  show ?thesis
  proof (cases found)
    case None
    with Inr show ?thesis by (simp add: delete_book_def)
  next
    case (Some b)
    with Inr have "find (\<lambda>b. id' b = Some i) (table s) = Some b"
      by (simp add: query_get_def split: option.splits)
    then have "id' b = Some i" by (rule find_id)
    with Inr Some show ?thesis
      by (cases f_commit) (simp_all add: delete_book_def commit_delete_def st_error_def)
  qed
qed

lemma delete_book_success_found:
  "fst (delete_book f_get f_commit i s) \<Longrightarrow> \<exists>b\<in>set (table s). id' b = Some i"
proof (rule ccontr)
  assume "fst (delete_book f_get f_commit i s)" and "\<not> (\<exists>b\<in>set (table s). id' b = Some i)"
  then show False by (simp add: delete_book_missing_any)
qed

lemma step_table:
  "table (step op s) = table s \<or>
   (\<exists>new. table (step op s) = table s @ [new] \<and> status new = Some ''available'' \<and>
      id' new = Some (next_rowid (table s))) \<or>
   (\<exists>i. table (step op s) = filter (\<lambda>b. id' b \<noteq> Some i) (table s))"
proof (cases op)
  case (Op_add f t a i c y)
  then show ?thesis by (simp add: add_book_result)
next
  case (Op_list now f)
  then show ?thesis by (simp add: get_all_books_table)
next
  case (Op_delete f_get f_commit i)
  then show ?thesis by (auto simp: delete_book_table)
next
  case Op_clear
  then show ?thesis by (simp add: get_all_books_clear_def)
qed

lemma step_rows:
  assumes "r \<in> set (table (step op s))"
  shows "r \<in> set (table s) \<or>
    (status r = Some ''available'' \<and> id' r = Some (next_rowid (table s)))"
  using step_table [of op s] assms by auto

lemma step_distinct:
  assumes "distinct (map id' (table s))"
  shows "distinct (map id' (table (step op s)))"
  using step_table [of op s] assms next_rowid_fresh [of "table s"]
  by (auto simp: distinct_map_filter)

lemma run_distinct:
  "distinct (map id' (table s)) \<Longrightarrow> distinct (map id' (table (run ops s)))"
  unfolding run_def by (induction ops arbitrary: s) (simp_all add: step_distinct)

lemma run_rows:
  "r \<in> set (table (run ops s)) \<Longrightarrow> r \<in> set (table s) \<or> status r = Some ''available''"
  unfolding run_def
proof (induction ops arbitrary: s)
  case Nil
  then show ?case by simp
next
  case (Cons op ops)
  then have "r \<in> set (table (step op s)) \<or> status r = Some ''available''"
    by simp
  then show ?case
    using step_rows [of r op s] by auto
qed

lemma step_same_row:
  assumes "distinct (map id' (table s))" and "b \<in> set (table s)"
    and "b' \<in> set (table (step op s))" and "id' b' = id' b"
  shows "b' = b"
proof -
  from step_rows [OF assms(3)] have "b' \<in> set (table s)"
  proof
    assume "b' \<in> set (table s)"
    then show ?thesis .
  next
    assume "status b' = Some ''available'' \<and> id' b' = Some (next_rowid (table s))"
    with assms(2,4) have "Some (next_rowid (table s)) \<in> id' ` set (table s)"
      by force
    with next_rowid_fresh [of "table s"] show ?thesis by simp
  qed
  with assms(1,2,4) show ?thesis
    by (auto simp: distinct_map dest: inj_onD)
qed

lemma main_View_Books:
  "main t f_select f_get f_commit View_Books s = snd (get_all_books t f_select s)"
  by (simp add: main_def)

lemma main_Add_Book:
  "main t f_select f_get f_commit (Add_Book ti au isb ca yr submitted) s =
     (if submitted then
        if strip ti \<noteq> [] \<and> strip au \<noteq> [] then
          if fst (add_book f_commit (Some ti) (Some au) (Some isb) (Some ca) (Some yr) s)
          then get_all_books_clear
                 (snd (add_book f_commit (Some ti) (Some au) (Some isb) (Some ca) (Some yr) s))
          else snd (add_book f_commit (Some ti) (Some au) (Some isb) (Some ca) (Some yr) s)
        else st_error ''Title and Author are required fields'' s
      else s)"
  by (simp add: main_def split: prod.splits bool.splits)

lemma main_Delete_Book:
  "main t f_select f_get f_commit (Delete_Book i submitted) s =
     (if fst (get_all_books t f_select s) \<noteq> [] then
        if submitted then
          if fst (delete_book f_get f_commit i (snd (get_all_books t f_select s)))
          then get_all_books_clear
                 (snd (delete_book f_get f_commit i (snd (get_all_books t f_select s))))
          else st_error ''Book ID not found''
                 (snd (delete_book f_get f_commit i (snd (get_all_books t f_select s))))
        else snd (get_all_books t f_select s)
      else snd (get_all_books t f_select s))"
  by (simp add: main_def split: prod.splits bool.splits)

lemma main_cleared_or_same_table:
  "cache (main t f_select f_get f_commit menu s) = None \<or>
   table (main t f_select f_get f_commit menu s) = table s"
proof (cases menu)
  case View_Books
  then show ?thesis by (simp add: main_View_Books get_all_books_table)
next
  case (Add_Book ti au isb ca yr submitted)
  then show ?thesis
    by (simp add: main_Add_Book get_all_books_clear_def st_error_def add_book_fail_table)
next
  case (Delete_Book i submitted)
  then show ?thesis
    by (simp add: main_Delete_Book get_all_books_clear_def st_error_def
        get_all_books_table delete_book_table)
qed

section \<open>Invalidation\<close>

text \<open>
  Claim C7. After \<^verbatim>\<open>get_all_books.clear()\<close> the next call of \<open>get_all_books\<close> runs the
  function again, whatever the cache held and whenever the call is made: it returns what
  the function computes from the table (the rows of the table when the statement is
  executed) and stores that frame with the time of the call. The page clears the cache
  right after every successful add and after every successful delete; so whenever a run
  of the page has changed the table, it ends with no cache entry, and the next list call
  returns the changed table.
\<close>

theorem clear_then_list_recomputes:
  "fst (get_all_books now f (get_all_books_clear s)) = fst (get_all_books_body f s) \<and>
   fst (get_all_books now None (get_all_books_clear s)) = table s \<and>
   cache (snd (get_all_books now f (get_all_books_clear s))) =
     Some (now, fst (get_all_books_body f s)) \<and>
   (strip ti \<noteq> [] \<and> strip au \<noteq> [] \<and>
    fst (add_book f_commit (Some ti) (Some au) (Some isb) (Some ca) (Some yr) s) \<longrightarrow>
      main t f_select f_get f_commit (Add_Book ti au isb ca yr True) s =
        get_all_books_clear
          (snd (add_book f_commit (Some ti) (Some au) (Some isb) (Some ca) (Some yr) s))) \<and>
   (fst (get_all_books t f_select s) \<noteq> [] \<and>
    fst (delete_book f_get f_commit i (snd (get_all_books t f_select s))) \<longrightarrow>
      main t f_select f_get f_commit (Delete_Book i True) s =
        get_all_books_clear
          (snd (delete_book f_get f_commit i (snd (get_all_books t f_select s))))) \<and>
   (table (main t f_select f_get f_commit menu s) \<noteq> table s \<longrightarrow>
      cache (main t f_select f_get f_commit menu s) = None \<and>
      fst (get_all_books now None (main t f_select f_get f_commit menu s)) =
        table (main t f_select f_get f_commit menu s))"
proof (intro conjI impI)
  show "fst (get_all_books now f (get_all_books_clear s)) = fst (get_all_books_body f s)"
    by (simp add: get_all_books_value body_value get_all_books_clear_def split: option.splits)
  show "fst (get_all_books now None (get_all_books_clear s)) = table s"
    by (simp add: get_all_books_value get_all_books_clear_def)
  show "cache (snd (get_all_books now f (get_all_books_clear s))) =
     Some (now, fst (get_all_books_body f s))"
    by (simp add: get_all_books_miss get_all_books_clear_def body_value split: option.splits)
next
  assume "strip ti \<noteq> [] \<and> strip au \<noteq> [] \<and>
    fst (add_book f_commit (Some ti) (Some au) (Some isb) (Some ca) (Some yr) s)"
  then show "main t f_select f_get f_commit (Add_Book ti au isb ca yr True) s =
        get_all_books_clear
          (snd (add_book f_commit (Some ti) (Some au) (Some isb) (Some ca) (Some yr) s))"
    by (simp add: main_Add_Book)
next
  assume "fst (get_all_books t f_select s) \<noteq> [] \<and>
    fst (delete_book f_get f_commit i (snd (get_all_books t f_select s)))"
  then show "main t f_select f_get f_commit (Delete_Book i True) s =
        get_all_books_clear
          (snd (delete_book f_get f_commit i (snd (get_all_books t f_select s))))"
    by (simp add: main_Delete_Book)
next
  assume changed: "table (main t f_select f_get f_commit menu s) \<noteq> table s"
  with main_cleared_or_same_table [of t f_select f_get f_commit menu s]
  show cleared: "cache (main t f_select f_get f_commit menu s) = None"
    by simp
  then show "fst (get_all_books now None (main t f_select f_get f_commit menu s)) =
        table (main t f_select f_get f_commit menu s)"
    by (simp add: get_all_books_value)
qed

theorem clear_then_list_recomputes_witness:
  "fst (get_all_books 50 None (get_all_books_clear stale_library)) = [kitab, qanun] \<and>
   main 1 None None None
     (Add_Book ''Kitab al-Manazir'' ''Ibn al-Haytham'' '''' ''Science'' 1021 True) fresh =
     scenario_library \<and>
   main 9 None None None (Delete_Book 1 True) stale_library =
     \<lparr>table = [qanun], shown = [], cache = None\<rparr> \<and>
   fst (get_all_books 10 None (main 9 None None None (Delete_Book 1 True) stale_library)) =
     [qanun]"
proof -
  have valid: "strip ''Kitab al-Manazir'' \<noteq> [] \<and> strip ''Ibn al-Haytham'' \<noteq> []"
    by (simp add: strip_def isspace_def)
  have added: "add_book None (Some ''Kitab al-Manazir'') (Some ''Ibn al-Haytham'') (Some '''')
      (Some ''Science'') (Some 1021) fresh = (True, scenario_library)"
    by (simp add: scenario_library_def add_book_ok)
  have listed: "get_all_books 9 None stale_library = ([kitab], stale_library)"
    by (simp add: stale_library_eq get_all_books_hit ttl_def)
  have deleted: "delete_book None None 1 stale_library =
      (True, \<lparr>table = [qanun], shown = [], cache = Some (0, [kitab])\<rparr>)"
    by (simp add: delete_book_found stale_library_eq kitab_def qanun_def)
  have m1: "main 1 None None None
     (Add_Book ''Kitab al-Manazir'' ''Ibn al-Haytham'' '''' ''Science'' 1021 True) fresh =
     scenario_library"
    using clear_then_list_recomputes [of 50 None fresh "''Kitab al-Manazir''"
        "''Ibn al-Haytham''" None "''''" "''Science''" 1021 1 None None 1 View_Books]
      valid added
    by (simp add: get_all_books_clear_def scenario_library_eq)
  have m2: "main 9 None None None (Delete_Book 1 True) stale_library =
     \<lparr>table = [qanun], shown = [], cache = None\<rparr>"
    using clear_then_list_recomputes [of 50 None stale_library "''x''" "''y''" None "''''"
        "''''" 0 9 None None 1 View_Books] listed deleted
    by (simp add: get_all_books_clear_def)
  have m3: "fst (get_all_books 50 None (get_all_books_clear stale_library)) = [kitab, qanun]"
    using clear_then_list_recomputes [of 50 None stale_library "''x''" "''y''" None "''''"
        "''''" 0 9 None None 1 View_Books]
    by (simp add: stale_library_eq get_all_books_body_None)
  have m4: "fst (get_all_books 10 None
      (main 9 None None None (Delete_Book 1 True) stale_library)) = [qanun]"
    unfolding m2 by (simp add: get_all_books_value)
  from m1 m2 m3 m4 show ?thesis by simp
qed

lemma fresh_distinct: "distinct (map id' (table fresh))"
  by (simp add: fresh_def)

lemma run_fresh_available:
  "r \<in> set (table (run ops fresh)) \<Longrightarrow> status r = Some ''available''"
  using run_rows [of r ops fresh] by (simp add: fresh_def)

section \<open>The status of a record\<close>

text \<open>
  Claim C8. No operation changes a row. Every operation (add, list, delete, clearing the
  cache), with whatever faults, leaves the table as it is, or appends one new row whose
  status is "available" and whose id no row had, or removes the rows of one id. So a row
  that is in the table before and after an operation (same id, ids being distinct) is the
  same row, with the same status. Over every sequence of operations: each row of the
  final table is a row of the initial table or has the status "available"; starting from
  a new library every row of every reachable table has the status "available", and every
  row that survives the next operation is unchanged.
\<close>

theorem status_available_and_never_changed:
  "(table (step op s) = table s \<or>
    (\<exists>new. table (step op s) = table s @ [new] \<and> status new = Some ''available'' \<and>
       id' new \<notin> id' ` set (table s)) \<or>
    (\<exists>i. table (step op s) = filter (\<lambda>b. id' b \<noteq> Some i) (table s))) \<and>
   (distinct (map id' (table s)) \<and> b \<in> set (table s) \<and>
    b' \<in> set (table (step op s)) \<and> id' b' = id' b \<longrightarrow> b' = b \<and> status b' = status b) \<and>
   (\<forall>r\<in>set (table (run ops s)). r \<in> set (table s) \<or> status r = Some ''available'') \<and>
   (\<forall>r\<in>set (table (run ops fresh)). status r = Some ''available'') \<and>
   (\<forall>r\<in>set (table (run ops fresh)). \<forall>r'\<in>set (table (step op (run ops fresh))).
      id' r' = id' r \<longrightarrow> r' = r \<and> status r' = status r)"
proof (intro conjI impI ballI)
  show "table (step op s) = table s \<or>
    (\<exists>new. table (step op s) = table s @ [new] \<and> status new = Some ''available'' \<and>
       id' new \<notin> id' ` set (table s)) \<or>
    (\<exists>i. table (step op s) = filter (\<lambda>b. id' b \<noteq> Some i) (table s))"
    using step_table [of op s] next_rowid_fresh [of "table s"] by auto
next
  assume a: "distinct (map id' (table s)) \<and> b \<in> set (table s) \<and>
    b' \<in> set (table (step op s)) \<and> id' b' = id' b"
  then show same: "b' = b"
    using step_same_row [of s b b' op] by simp
  then show "status b' = status b" by simp
next
  fix r assume "r \<in> set (table (run ops s))"
  then show "r \<in> set (table s) \<or> status r = Some ''available''"
    by (rule run_rows)
next
  fix r assume "r \<in> set (table (run ops fresh))"
  then show "status r = Some ''available''"
    by (rule run_fresh_available)
next
  fix r r'
  assume r: "r \<in> set (table (run ops fresh))"
    and r': "r' \<in> set (table (step op (run ops fresh)))"
    and eq: "id' r' = id' r"
  have "distinct (map id' (table (run ops fresh)))"
    by (rule run_distinct [OF fresh_distinct])
  then show same: "r' = r"
    using r r' eq by (rule step_same_row)
  then show "status r' = status r" by simp
qed

theorem status_available_and_never_changed_witness:
  "distinct (map id' (table stale_library)) \<and> qanun \<in> set (table stale_library) \<and>
   table (step (Op_delete None None 1) stale_library) = [qanun] \<and>
   status qanun = Some ''available'' \<and>
   table (run [Op_add None (Some ''Kitab al-Manazir'') (Some ''Ibn al-Haytham'') (Some '''')
                 (Some ''Science'') (Some 1021),
               Op_list 0 None,
               Op_add None (Some ''Al-Qanun fi al-Tibb'') (Some ''Ibn Sina'') (Some '''')
                 (Some ''Science'') (Some 1025),
               Op_delete None None 1, Op_clear] fresh) = [qanun]"
proof -
  have d: "distinct (map id' (table stale_library))"
    by (simp add: stale_library_eq kitab_def qanun_def)
  have m: "qanun \<in> set (table stale_library)"
    by (simp add: stale_library_eq)
  have del: "table (step (Op_delete None None 1) stale_library) = [qanun]"
    by (simp add: delete_book_found stale_library_eq kitab_def qanun_def)
  have r: "run [Op_add None (Some ''Kitab al-Manazir'') (Some ''Ibn al-Haytham'') (Some '''')
                 (Some ''Science'') (Some 1021),
               Op_list 0 None,
               Op_add None (Some ''Al-Qanun fi al-Tibb'') (Some ''Ibn Sina'') (Some '''')
                 (Some ''Science'') (Some 1025),
               Op_delete None None 1, Op_clear] fresh =
           get_all_books_clear (step (Op_delete None None 1) stale_library)"
    by (simp add: run_def stale_library_def scenario_library_def)
  have "status qanun = status qanun \<and> status qanun = Some ''available''"
    using status_available_and_never_changed [of "Op_delete None None 1" stale_library
        qanun qanun "[]"] d m del
    by (simp add: qanun_def)
  with d m del r show ?thesis
    by (simp add: get_all_books_clear_def)
qed

section \<open>The schema\<close>


section \<open>The defaults of add\<close>

text \<open>
  Claim C10. When \<open>add_book\<close> is called without a value for isbn, or without one for
  category, the argument is the default of the signature, the empty string, and the row
  that a successful call stores holds the empty string in that column, not null, although
  both columns are declared nullable. Called with title and author only, it stores the
  empty string in both and null in publication_year.
\<close>

theorem add_book_defaults_store_empty_strings:
  "(fst (add_book f t a isbn_default c y s) \<longrightarrow>
      isbn (last (table (snd (add_book f t a isbn_default c y s)))) = Some '''') \<and>
   (fst (add_book f t a i category_default y s) \<longrightarrow>
      category (last (table (snd (add_book f t a i category_default y s)))) = Some '''') \<and>
   add_book None (Some t') (Some a') isbn_default category_default publication_year_default s =
     (True, s\<lparr>table := table s @
        [\<lparr>id' = Some (next_rowid (table s)), title = Some t', author = Some a',
          isbn = Some '''', category = Some '''', publication_year = None,
          status = Some ''available''\<rparr>]\<rparr>) \<and>
   nullable Book_isbn \<and> nullable Book_category"
proof (intro conjI impI)
  assume "fst (add_book f t a isbn_default c y s)"
  then show "isbn (last (table (snd (add_book f t a isbn_default c y s)))) = Some ''''"
    by (simp add: add_book_result isbn_default_def split: if_splits)
next
  assume "fst (add_book f t a i category_default y s)"
  then show "category (last (table (snd (add_book f t a i category_default y s)))) = Some ''''"
    by (simp add: add_book_result category_default_def split: if_splits)
next
  show "add_book None (Some t') (Some a') isbn_default category_default
      publication_year_default s =
     (True, s\<lparr>table := table s @
        [\<lparr>id' = Some (next_rowid (table s)), title = Some t', author = Some a',
          isbn = Some '''', category = Some '''', publication_year = None,
          status = Some ''available''\<rparr>]\<rparr>)"
    by (simp add: add_book_ok isbn_default_def category_default_def
        publication_year_default_def)
  show "nullable Book_isbn" by (simp add: Book_isbn_def Column_def)
  show "nullable Book_category" by (simp add: Book_category_def Column_def)
qed

theorem add_book_defaults_store_empty_strings_witness:
  "fst (add_book None (Some ''Kitab al-Manazir'') (Some ''Ibn al-Haytham'') isbn_default
          category_default publication_year_default fresh) \<and>
   table (snd (add_book None (Some ''Kitab al-Manazir'') (Some ''Ibn al-Haytham'')
                 isbn_default category_default publication_year_default fresh)) =
     [\<lparr>id' = Some 1, title = Some ''Kitab al-Manazir'', author = Some ''Ibn al-Haytham'',
       isbn = Some '''', category = Some '''', publication_year = None,
       status = Some ''available''\<rparr>] \<and>
   isbn (last (table (snd (add_book None (Some ''Kitab al-Manazir'')
      (Some ''Ibn al-Haytham'') isbn_default category_default publication_year_default
      fresh)))) = Some '''' \<and>
   category (last (table (snd (add_book None (Some ''Kitab al-Manazir'')
      (Some ''Ibn al-Haytham'') isbn_default category_default publication_year_default
      fresh)))) = Some ''''"
proof -
  have ok: "add_book None (Some ''Kitab al-Manazir'') (Some ''Ibn al-Haytham'')
      isbn_default category_default publication_year_default fresh =
     (True, fresh\<lparr>table := table fresh @
        [\<lparr>id' = Some (next_rowid (table fresh)), title = Some ''Kitab al-Manazir'',
          author = Some ''Ibn al-Haytham'', isbn = Some '''', category = Some '''',
          publication_year = None, status = Some ''available''\<rparr>]\<rparr>)"
    using add_book_defaults_store_empty_strings [of None "Some ''Kitab al-Manazir''"
        "Some ''Ibn al-Haytham''" category_default publication_year_default fresh
        isbn_default "''Kitab al-Manazir''" "''Ibn al-Haytham''"]
    by simp
  show ?thesis
    unfolding ok by (simp add: fresh_def next_rowid_Nil)
qed

end
